theory Spec2Isabelle
  imports Complex_Main
begin

section \<open>JSON values, HTTP exchanges and exceptions\<close>

text \<open>
  The gateway of \<^verbatim>\<open>app/main.py\<close> talks to the Ollama backend through \<^verbatim>\<open>httpx\<close> and
  reads the answers with \<^verbatim>\<open>response.json()\<close>. A JSON value is what Python's parser
  returns: \<^verbatim>\<open>None\<close>, a bool, an unbounded int, a float, a str, a list or a dict. A dict
  is an association list whose keys are distinct (the parser keeps one entry per key).
\<close>

datatype json =
    JNull
  | JBool bool
  | JInt int
  | JFloat real
  | JString string
  | JArray "json list"
  | JObject "(string \<times> json) list"

text \<open>
  An \<^verbatim>\<open>httpx.Response\<close>: its status code, its text, and what \<^verbatim>\<open>.json()\<close> returns
  (\<open>None\<close> when the body is not JSON and \<^verbatim>\<open>.json()\<close> raises).
\<close>

record http_response =
  status_code :: int
  body_text :: string
  json_value :: "json option"

text \<open>
  What one awaited client call can do: return a response, raise
  \<^verbatim>\<open>httpx.TimeoutException\<close>, or raise another transport error (connection refused).
\<close>

datatype outcome = Responded http_response | TimedOut | Refused

text \<open>
  The observable actions of the service: a GET or POST to a URL (with the JSON body and
  the timeout in seconds) and \<^verbatim>\<open>asyncio.sleep\<close>. The backend answers a call as a function
  of everything that happened before it, so it may change its mind over time.
\<close>

datatype action = Get string nat | Post string json nat | Sleep nat

type_synonym trace = "action list"

type_synonym backend = "trace \<Rightarrow> action \<Rightarrow> outcome"

text \<open>
  The exceptions the code can meet. All of them are subclasses of \<^verbatim>\<open>Exception\<close>,
  FastAPI's \<^verbatim>\<open>HTTPException\<close> (status code, detail) included.
\<close>

datatype exn =
    HTTPException int string
  | TimeoutException
  | ConnectError
  | JSONDecodeError
  | AttributeError
  | TypeError
  | KeyError
  | ValidationError

definition OLLAMA_BASE_URL :: string where
  "OLLAMA_BASE_URL = ''http://localhost:11434''"

definition MODEL_NAME :: string where
  "MODEL_NAME = ''gemma2:2b''"

definition version_url :: string where
  "version_url = OLLAMA_BASE_URL @ ''/api/version''"

definition tags_url :: string where
  "tags_url = OLLAMA_BASE_URL @ ''/api/tags''"

definition generate_url :: string where
  "generate_url = OLLAMA_BASE_URL @ ''/api/generate''"

definition show_url :: string where
  "show_url = OLLAMA_BASE_URL @ ''/api/show''"

text \<open>One awaited \<^verbatim>\<open>client.get\<close> or \<^verbatim>\<open>client.post\<close>: the call is recorded, then it returns or raises.\<close>

definition http_call :: "backend \<Rightarrow> action \<Rightarrow> trace \<Rightarrow> (exn + http_response) \<times> trace" where
  "http_call be a tr =
     (case be tr a of
        Responded r \<Rightarrow> Inr r
      | TimedOut \<Rightarrow> Inl TimeoutException
      | Refused \<Rightarrow> Inl ConnectError,
      tr @ [a])"

subsection \<open>Python's dict and sequence operations on JSON values\<close>

text \<open>\<^verbatim>\<open>d.get(k, default)\<close>: only a dict has \<^verbatim>\<open>get\<close>; on any other value it is an AttributeError.\<close>

definition py_get :: "json \<Rightarrow> string \<Rightarrow> json \<Rightarrow> exn + json" where
  "py_get d k dflt =
     (case d of
        JObject kvs \<Rightarrow> (case map_of kvs k of None \<Rightarrow> Inr dflt | Some v \<Rightarrow> Inr v)
      | _ \<Rightarrow> Inl AttributeError)"

text \<open>\<^verbatim>\<open>d[k]\<close> with a string key: a KeyError on a dict without the key, a TypeError on anything else.\<close>

definition py_getitem :: "json \<Rightarrow> string \<Rightarrow> exn + json" where
  "py_getitem d k =
     (case d of
        JObject kvs \<Rightarrow> (case map_of kvs k of None \<Rightarrow> Inl KeyError | Some v \<Rightarrow> Inr v)
      | _ \<Rightarrow> Inl TypeError)"

text \<open>
  \<^verbatim>\<open>for x in v\<close>: a list gives its elements, a dict its keys, a str its characters;
  nothing else is iterable.
\<close>

definition py_iter :: "json \<Rightarrow> exn + json list" where
  "py_iter v =
     (case v of
        JArray xs \<Rightarrow> Inr xs
      | JObject kvs \<Rightarrow> Inr (map (\<lambda>kv. JString (fst kv)) kvs)
      | JString s \<Rightarrow> Inr (map (\<lambda>c. JString [c]) s)
      | _ \<Rightarrow> Inl TypeError)"

section \<open>The backend client helpers\<close>

text \<open>
  \<^verbatim>\<open>check_ollama_health\<close>: the body of the \<^verbatim>\<open>try\<close>, then the function with its
  \<^verbatim>\<open>except Exception\<close> handler, which answers False.
\<close>

definition check_ollama_health_try :: "backend \<Rightarrow> trace \<Rightarrow> (exn + bool) \<times> trace" where
  "check_ollama_health_try be tr =
     (case http_call be (Get version_url 5) tr of
        (Inl e, tr') \<Rightarrow> (Inl e, tr')
      | (Inr response, tr') \<Rightarrow> (Inr (status_code response = 200), tr'))"

definition check_ollama_health :: "backend \<Rightarrow> trace \<Rightarrow> (exn + bool) \<times> trace" where
  "check_ollama_health be tr =
     (case check_ollama_health_try be tr of
        (Inl e, tr') \<Rightarrow> (Inr False, tr')
      | (Inr b, tr') \<Rightarrow> (Inr b, tr'))"

text \<open>The list comprehension \<^verbatim>\<open>[model["name"] for model in ...]\<close>; the first failing element raises.\<close>

fun model_names :: "json list \<Rightarrow> exn + json list" where
  "model_names [] = Inr []"
| "model_names (m # ms) =
     (case py_getitem m ''name'' of
        Inl e \<Rightarrow> Inl e
      | Inr v \<Rightarrow> (case model_names ms of Inl e \<Rightarrow> Inl e | Inr vs \<Rightarrow> Inr (v # vs)))"

definition get_available_models_try :: "backend \<Rightarrow> trace \<Rightarrow> (exn + json list) \<times> trace" where
  "get_available_models_try be tr =
     (case http_call be (Get tags_url 10) tr of
        (Inl e, tr') \<Rightarrow> (Inl e, tr')
      | (Inr response, tr') \<Rightarrow>
          (if status_code response = 200 then
             (case json_value response of
                None \<Rightarrow> Inl JSONDecodeError
              | Some data \<Rightarrow>
                  (case py_get data ''models'' (JArray []) of
                     Inl e \<Rightarrow> Inl e
                   | Inr ms \<Rightarrow> (case py_iter ms of Inl e \<Rightarrow> Inl e | Inr xs \<Rightarrow> model_names xs)))
           else Inr [],
           tr'))"

definition get_available_models :: "backend \<Rightarrow> trace \<Rightarrow> (exn + json list) \<times> trace" where
  "get_available_models be tr =
     (case get_available_models_try be tr of
        (Inl e, tr') \<Rightarrow> (Inr [], tr')
      | (Inr names, tr') \<Rightarrow> (Inr names, tr'))"

text \<open>
  \<^verbatim>\<open>ensure_model_loaded\<close>: one generation of a single token, with streaming off and a
  30 second timeout; any exception answers False.
\<close>

definition warmup_payload :: json where
  "warmup_payload =
     JObject [(''model'', JString MODEL_NAME),
              (''prompt'', JString ''Hello''),
              (''stream'', JBool False),
              (''options'', JObject [(''num_predict'', JInt 1)])]"

definition ensure_model_loaded_try :: "backend \<Rightarrow> trace \<Rightarrow> (exn + bool) \<times> trace" where
  "ensure_model_loaded_try be tr =
     (case http_call be (Post generate_url warmup_payload 30) tr of
        (Inl e, tr') \<Rightarrow> (Inl e, tr')
      | (Inr response, tr') \<Rightarrow> (Inr (status_code response = 200), tr'))"

definition ensure_model_loaded :: "backend \<Rightarrow> trace \<Rightarrow> (exn + bool) \<times> trace" where
  "ensure_model_loaded be tr =
     (case ensure_model_loaded_try be tr of
        (Inl e, tr') \<Rightarrow> (Inr False, tr')
      | (Inr b, tr') \<Rightarrow> (Inr b, tr'))"

section \<open>The response models\<close>

text \<open>
  The pydantic models validate their fields when they are constructed. A value of the
  field's own type is taken as it is. What the library does with a value of another JSON
  type (convert it, or raise a ValidationError) differs between its versions and is not
  part of this repository, so it is a parameter: \<open>coerce_str v = None\<close> says that a
  \<^verbatim>\<open>str\<close> field rejects \<open>v\<close>. The same record carries \<open>exc_str\<close>, the text \<^verbatim>\<open>str(e)\<close>
  of an exception, which the handlers paste into their messages.
\<close>

record library =
  coerce_str :: "json \<Rightarrow> string option"
  coerce_int :: "json \<Rightarrow> int option"
  coerce_bool :: "json \<Rightarrow> bool option"
  coerce_dict :: "json \<Rightarrow> (string \<times> json) list option"
  exc_str :: "exn \<Rightarrow> string"

definition and_then :: "exn + 'a \<Rightarrow> ('a \<Rightarrow> exn + 'b) \<Rightarrow> exn + 'b" where
  "and_then r f = (case r of Inl e \<Rightarrow> Inl e | Inr x \<Rightarrow> f x)"

definition or_invalid :: "'a option \<Rightarrow> exn + 'a" where
  "or_invalid r = (case r of None \<Rightarrow> Inl ValidationError | Some x \<Rightarrow> Inr x)"

definition validate_str :: "library \<Rightarrow> json \<Rightarrow> exn + string" where
  "validate_str lib v = (case v of JString s \<Rightarrow> Inr s | _ \<Rightarrow> or_invalid (coerce_str lib v))"

definition validate_int :: "library \<Rightarrow> json \<Rightarrow> exn + int" where
  "validate_int lib v = (case v of JInt n \<Rightarrow> Inr n | _ \<Rightarrow> or_invalid (coerce_int lib v))"

definition validate_bool :: "library \<Rightarrow> json \<Rightarrow> exn + bool" where
  "validate_bool lib v = (case v of JBool b \<Rightarrow> Inr b | _ \<Rightarrow> or_invalid (coerce_bool lib v))"

definition validate_optional_int :: "library \<Rightarrow> json \<Rightarrow> exn + int option" where
  "validate_optional_int lib v =
     (case v of
        JNull \<Rightarrow> Inr None
      | JInt n \<Rightarrow> Inr (Some n)
      | _ \<Rightarrow> and_then (or_invalid (coerce_int lib v)) (\<lambda>n. Inr (Some n)))"

definition validate_dict :: "library \<Rightarrow> json \<Rightarrow> exn + (string \<times> json) list" where
  "validate_dict lib v = (case v of JObject kvs \<Rightarrow> Inr kvs | _ \<Rightarrow> or_invalid (coerce_dict lib v))"

fun validate_str_list :: "library \<Rightarrow> json list \<Rightarrow> exn + string list" where
  "validate_str_list lib [] = Inr []"
| "validate_str_list lib (v # vs) =
     and_then (validate_str lib v) (\<lambda>s.
     and_then (validate_str_list lib vs) (\<lambda>ss. Inr (s # ss)))"

record InferenceRequest =
  prompt :: string
  max_tokens :: "int option"
  temperature :: "real option"
  top_p :: "real option"
  stream :: "bool option"

text \<open>The field \<^verbatim>\<open>done\<close> is \<open>done_field\<close> here and \<^verbatim>\<open>size\<close> is \<open>size_field\<close>.\<close>

record InferenceResponse =
  response :: string
  model :: string
  created_at :: string
  done_field :: bool
  total_duration :: "int option"
  load_duration :: "int option"
  prompt_eval_count :: "int option"
  prompt_eval_duration :: "int option"
  eval_count :: "int option"
  eval_duration :: "int option"

record ModelInfo =
  name :: string
  size_field :: int
  digest :: string
  details :: "(string \<times> json) list"

record HealthResponse =
  status :: string
  message :: string
  ollama_status :: string
  available_models :: "string list"

definition InferenceResponse_init ::
  "library \<Rightarrow> json \<Rightarrow> json \<Rightarrow> json \<Rightarrow> json \<Rightarrow> json \<Rightarrow> json \<Rightarrow> json \<Rightarrow> json \<Rightarrow> json \<Rightarrow> json
     \<Rightarrow> exn + InferenceResponse" where
  "InferenceResponse_init lib v1 v2 v3 v4 v5 v6 v7 v8 v9 v10 =
     and_then (validate_str lib v1) (\<lambda>r.
     and_then (validate_str lib v2) (\<lambda>m.
     and_then (validate_str lib v3) (\<lambda>c.
     and_then (validate_bool lib v4) (\<lambda>d.
     and_then (validate_optional_int lib v5) (\<lambda>td.
     and_then (validate_optional_int lib v6) (\<lambda>ld.
     and_then (validate_optional_int lib v7) (\<lambda>pec.
     and_then (validate_optional_int lib v8) (\<lambda>ped.
     and_then (validate_optional_int lib v9) (\<lambda>ec.
     and_then (validate_optional_int lib v10) (\<lambda>ed.
       Inr \<lparr>response = r, model = m, created_at = c, done_field = d,
            total_duration = td, load_duration = ld, prompt_eval_count = pec,
            prompt_eval_duration = ped, eval_count = ec, eval_duration = ed\<rparr>))))))))))"

definition ModelInfo_init :: "library \<Rightarrow> json \<Rightarrow> json \<Rightarrow> json \<Rightarrow> json \<Rightarrow> exn + ModelInfo" where
  "ModelInfo_init lib v1 v2 v3 v4 =
     and_then (validate_str lib v1) (\<lambda>n.
     and_then (validate_int lib v2) (\<lambda>s.
     and_then (validate_str lib v3) (\<lambda>d.
     and_then (validate_dict lib v4) (\<lambda>ds.
       Inr \<lparr>name = n, size_field = s, digest = d, details = ds\<rparr>))))"

definition HealthResponse_init ::
  "library \<Rightarrow> string \<Rightarrow> string \<Rightarrow> string \<Rightarrow> json list \<Rightarrow> exn + HealthResponse" where
  "HealthResponse_init lib st msg os ms =
     and_then (validate_str_list lib ms) (\<lambda>names.
       Inr \<lparr>status = st, message = msg, ollama_status = os, available_models = names\<rparr>)"

section \<open>The endpoints\<close>

subsection \<open>GET /health\<close>

definition health_check :: "library \<Rightarrow> backend \<Rightarrow> trace \<Rightarrow> (exn + HealthResponse) \<times> trace" where
  "health_check lib be tr =
     (case check_ollama_health be tr of
        (Inl e, tr1) \<Rightarrow> (Inl e, tr1)
      | (Inr ollama_healthy, tr1) \<Rightarrow>
          (case get_available_models be tr1 of
             (Inl e, tr2) \<Rightarrow> (Inl e, tr2)
           | (Inr models, tr2) \<Rightarrow>
               (if ollama_healthy \<and> JString MODEL_NAME \<in> set models then
                  HealthResponse_init lib ''healthy''
                    ''Service is running and model is available'' ''running'' models
                else if ollama_healthy then
                  HealthResponse_init lib ''partial''
                    (''Ollama is running but '' @ MODEL_NAME @ '' is not available'') ''running'' models
                else
                  HealthResponse_init lib ''unhealthy''
                    ''Ollama service is not responding'' ''not responding'' models,
                tr2)))"

subsection \<open>POST /inference\<close>

definition optional :: "('a \<Rightarrow> json) \<Rightarrow> 'a option \<Rightarrow> json" where
  "optional f v = (case v of None \<Rightarrow> JNull | Some x \<Rightarrow> f x)"

definition inference_payload :: "InferenceRequest \<Rightarrow> json" where
  "inference_payload request =
     JObject [(''model'', JString MODEL_NAME),
              (''prompt'', JString (prompt request)),
              (''stream'', optional JBool (stream request)),
              (''options'', JObject [(''num_predict'', optional JInt (max_tokens request)),
                                     (''temperature'', optional JFloat (temperature request)),
                                     (''top_p'', optional JFloat (top_p request))])]"

definition generate_inference_try ::
  "library \<Rightarrow> backend \<Rightarrow> InferenceRequest \<Rightarrow> trace \<Rightarrow> (exn + InferenceResponse) \<times> trace" where
  "generate_inference_try lib be request tr =
     (case http_call be (Post generate_url (inference_payload request) 60) tr of
        (Inl e, tr') \<Rightarrow> (Inl e, tr')
      | (Inr resp, tr') \<Rightarrow>
          (if status_code resp \<noteq> 200 then
             Inl (HTTPException (status_code resp) (''Ollama request failed: '' @ body_text resp))
           else
             (case json_value resp of
                None \<Rightarrow> Inl JSONDecodeError
              | Some result \<Rightarrow>
                  and_then (py_get result ''response'' (JString '''')) (\<lambda>v1.
                  and_then (py_get result ''model'' (JString MODEL_NAME)) (\<lambda>v2.
                  and_then (py_get result ''created_at'' (JString '''')) (\<lambda>v3.
                  and_then (py_get result ''done'' (JBool True)) (\<lambda>v4.
                  and_then (py_get result ''total_duration'' JNull) (\<lambda>v5.
                  and_then (py_get result ''load_duration'' JNull) (\<lambda>v6.
                  and_then (py_get result ''prompt_eval_count'' JNull) (\<lambda>v7.
                  and_then (py_get result ''prompt_eval_duration'' JNull) (\<lambda>v8.
                  and_then (py_get result ''eval_count'' JNull) (\<lambda>v9.
                  and_then (py_get result ''eval_duration'' JNull) (\<lambda>v10.
                    InferenceResponse_init lib v1 v2 v3 v4 v5 v6 v7 v8 v9 v10))))))))))),
           tr'))"

text \<open>
  The 503 is raised before the \<^verbatim>\<open>try\<close>. The handlers of the \<^verbatim>\<open>try\<close> are
  \<^verbatim>\<open>except httpx.TimeoutException\<close> and then \<^verbatim>\<open>except Exception\<close>, which takes every
  other exception raised in the block.
\<close>

definition generate_inference ::
  "library \<Rightarrow> backend \<Rightarrow> InferenceRequest \<Rightarrow> trace \<Rightarrow> (exn + InferenceResponse) \<times> trace" where
  "generate_inference lib be request tr =
     (case check_ollama_health be tr of
        (Inl e, tr1) \<Rightarrow> (Inl e, tr1)
      | (Inr False, tr1) \<Rightarrow> (Inl (HTTPException 503 ''Ollama service is not available''), tr1)
      | (Inr True, tr1) \<Rightarrow>
          (case generate_inference_try lib be request tr1 of
             (Inl TimeoutException, tr2) \<Rightarrow>
               (Inl (HTTPException 504
                  ''Request timed out. The model might be loading or the prompt is too complex.''), tr2)
           | (Inl e, tr2) \<Rightarrow>
               (Inl (HTTPException 500 (''Internal server error: '' @ exc_str lib e)), tr2)
           | (Inr r, tr2) \<Rightarrow> (Inr r, tr2)))"

subsection \<open>GET /models and GET /model/{model_name}\<close>

definition list_models :: "backend \<Rightarrow> trace \<Rightarrow> (exn + json list) \<times> trace" where
  "list_models be tr = get_available_models be tr"

definition get_model_info_try ::
  "library \<Rightarrow> backend \<Rightarrow> string \<Rightarrow> trace \<Rightarrow> (exn + ModelInfo) \<times> trace" where
  "get_model_info_try lib be model_name tr =
     (case http_call be (Post show_url (JObject [(''name'', JString model_name)]) 10) tr of
        (Inl e, tr') \<Rightarrow> (Inl e, tr')
      | (Inr resp, tr') \<Rightarrow>
          (if status_code resp = 404 then
             Inl (HTTPException 404 (''Model '' @ [CHR 0x27] @ model_name @ [CHR 0x27] @ '' not found''))
           else if status_code resp \<noteq> 200 then
             Inl (HTTPException (status_code resp) ''Failed to get model information'')
           else
             (case json_value resp of
                None \<Rightarrow> Inl JSONDecodeError
              | Some data \<Rightarrow>
                  and_then (py_get data ''details'' (JObject [])) (\<lambda>d.
                  and_then (py_get d ''name'' (JString model_name)) (\<lambda>v1.
                  and_then (py_get data ''size'' (JInt 0)) (\<lambda>v2.
                  and_then (py_get data ''digest'' (JString '''')) (\<lambda>v3.
                  and_then (py_get data ''details'' (JObject [])) (\<lambda>v4.
                    ModelInfo_init lib v1 v2 v3 v4)))))),
           tr'))"

text \<open>Here \<^verbatim>\<open>except HTTPException: raise\<close> comes before \<^verbatim>\<open>except Exception\<close>.\<close>

definition get_model_info ::
  "library \<Rightarrow> backend \<Rightarrow> string \<Rightarrow> trace \<Rightarrow> (exn + ModelInfo) \<times> trace" where
  "get_model_info lib be model_name tr =
     (case get_model_info_try lib be model_name tr of
        (Inl (HTTPException code detail), tr') \<Rightarrow> (Inl (HTTPException code detail), tr')
      | (Inl e, tr') \<Rightarrow>
          (Inl (HTTPException 500 (''Internal server error: '' @ exc_str lib e)), tr')
      | (Inr info, tr') \<Rightarrow> (Inr info, tr'))"

subsection \<open>The startup event\<close>

text \<open>
  \<^verbatim>\<open>startup_event\<close> returns nothing; the model returns the branch in which it ended, each
  of which the source marks with its own log line: the \<^verbatim>\<open>else\<close> of the polling loop
  ("did not become ready in time"), the warm-up done, the warm-up failed, the model not
  available.
\<close>

datatype startup_end = ExhaustedRetries | WarmedUp | WarmupFailed | ModelNotAvailable

text \<open>
  The loop \<^verbatim>\<open>for i in range(max_retries)\<close> with \<open>n\<close> iterations left. It answers True at
  the \<^verbatim>\<open>break\<close> and False when the range is used up (the loop's \<^verbatim>\<open>else\<close>).
\<close>

fun startup_wait :: "backend \<Rightarrow> nat \<Rightarrow> trace \<Rightarrow> (exn + bool) \<times> trace" where
  "startup_wait be 0 tr = (Inr False, tr)"
| "startup_wait be (Suc n) tr =
     (case check_ollama_health be tr of
        (Inl e, tr') \<Rightarrow> (Inl e, tr')
      | (Inr True, tr') \<Rightarrow> (Inr True, tr')
      | (Inr False, tr') \<Rightarrow> startup_wait be n (tr' @ [Sleep 2]))"

definition max_retries :: nat where
  "max_retries = 30"

definition startup_event :: "backend \<Rightarrow> trace \<Rightarrow> (exn + startup_end) \<times> trace" where
  "startup_event be tr =
     (case startup_wait be max_retries tr of
        (Inl e, tr1) \<Rightarrow> (Inl e, tr1)
      | (Inr False, tr1) \<Rightarrow> (Inr ExhaustedRetries, tr1)
      | (Inr True, tr1) \<Rightarrow>
          (case get_available_models be tr1 of
             (Inl e, tr2) \<Rightarrow> (Inl e, tr2)
           | (Inr models, tr2) \<Rightarrow>
               (if JString MODEL_NAME \<in> set models then
                  (case ensure_model_loaded be tr2 of
                     (Inl e, tr3) \<Rightarrow> (Inl e, tr3)
                   | (Inr True, tr3) \<Rightarrow> (Inr WarmedUp, tr3)
                   | (Inr False, tr3) \<Rightarrow> (Inr WarmupFailed, tr3))
                else (Inr ModelNotAvailable, tr2))))"

section \<open>Vocabulary of the statements\<close>

text \<open>
  The version check succeeds at a point of the run when the backend answers the
  \<^verbatim>\<open>/api/version\<close> call made there with status 200.
\<close>

definition version_ok :: "backend \<Rightarrow> trace \<Rightarrow> bool" where
  "version_ok be tr =
     (case be tr (Get version_url 5) of Responded r \<Rightarrow> status_code r = 200 | _ \<Rightarrow> False)"

text \<open>\<open>polls k\<close> is what \<open>k\<close> failed rounds of the startup loop do: a version check, then a sleep of 2 seconds.\<close>

definition polls :: "nat \<Rightarrow> trace" where
  "polls k = concat (replicate k [Get version_url 5, Sleep 2])"

text \<open>
  The backend is reachable and answers the generate call of \<^verbatim>\<open>generate_inference\<close>
  with \<open>resp\<close>; it answers the show call of \<^verbatim>\<open>get_model_info\<close> with \<open>resp\<close>.
\<close>

definition generate_answers :: "backend \<Rightarrow> InferenceRequest \<Rightarrow> trace \<Rightarrow> http_response \<Rightarrow> bool" where
  "generate_answers be request tr resp =
     (version_ok be tr \<and>
      be (tr @ [Get version_url 5]) (Post generate_url (inference_payload request) 60) = Responded resp)"

definition show_answers :: "backend \<Rightarrow> string \<Rightarrow> trace \<Rightarrow> http_response \<Rightarrow> bool" where
  "show_answers be model_name tr resp =
     (be tr (Post show_url (JObject [(''name'', JString model_name)]) 10) = Responded resp)"

text \<open>Well-typed payloads: a key of the object is either missing or holds a value of the expected JSON type.\<close>

definition is_str :: "json \<Rightarrow> bool" where
  "is_str v = (case v of JString _ \<Rightarrow> True | _ \<Rightarrow> False)"

definition is_bool :: "json \<Rightarrow> bool" where
  "is_bool v = (case v of JBool _ \<Rightarrow> True | _ \<Rightarrow> False)"

definition is_int :: "json \<Rightarrow> bool" where
  "is_int v = (case v of JInt _ \<Rightarrow> True | _ \<Rightarrow> False)"

definition is_int_or_null :: "json \<Rightarrow> bool" where
  "is_int_or_null v = (case v of JInt _ \<Rightarrow> True | JNull \<Rightarrow> True | _ \<Rightarrow> False)"

definition absent_or :: "(json \<Rightarrow> bool) \<Rightarrow> (string \<times> json) list \<Rightarrow> string \<Rightarrow> bool" where
  "absent_or P kvs k = (case map_of kvs k of None \<Rightarrow> True | Some v \<Rightarrow> P v)"

definition generate_result_typed :: "(string \<times> json) list \<Rightarrow> bool" where
  "generate_result_typed kvs =
     (absent_or is_str kvs ''response'' \<and> absent_or is_str kvs ''model'' \<and>
      absent_or is_str kvs ''created_at'' \<and> absent_or is_bool kvs ''done'' \<and>
      absent_or is_int_or_null kvs ''total_duration'' \<and>
      absent_or is_int_or_null kvs ''load_duration'' \<and>
      absent_or is_int_or_null kvs ''prompt_eval_count'' \<and>
      absent_or is_int_or_null kvs ''prompt_eval_duration'' \<and>
      absent_or is_int_or_null kvs ''eval_count'' \<and>
      absent_or is_int_or_null kvs ''eval_duration'')"

definition show_result_typed :: "(string \<times> json) list \<Rightarrow> bool" where
  "show_result_typed kvs =
     (absent_or is_int kvs ''size'' \<and> absent_or is_str kvs ''digest'' \<and>
      (case map_of kvs ''details'' of
         None \<Rightarrow> True
       | Some (JObject d) \<Rightarrow> absent_or is_str d ''name''
       | Some _ \<Rightarrow> False))"

text \<open>What a well-typed object holds under a key, with the fallback for a missing key.\<close>

definition str_or :: "(string \<times> json) list \<Rightarrow> string \<Rightarrow> string \<Rightarrow> string" where
  "str_or kvs k d = (case map_of kvs k of Some (JString s) \<Rightarrow> s | _ \<Rightarrow> d)"

definition bool_or :: "(string \<times> json) list \<Rightarrow> string \<Rightarrow> bool \<Rightarrow> bool" where
  "bool_or kvs k d = (case map_of kvs k of Some (JBool b) \<Rightarrow> b | _ \<Rightarrow> d)"

definition int_or :: "(string \<times> json) list \<Rightarrow> string \<Rightarrow> int \<Rightarrow> int" where
  "int_or kvs k d = (case map_of kvs k of Some (JInt n) \<Rightarrow> n | _ \<Rightarrow> d)"

definition dict_or :: "(string \<times> json) list \<Rightarrow> string \<Rightarrow> (string \<times> json) list \<Rightarrow> (string \<times> json) list" where
  "dict_or kvs k d = (case map_of kvs k of Some (JObject obj) \<Rightarrow> obj | _ \<Rightarrow> d)"

text \<open>
  A timing or usage counter of the backend payload: a missing key is \<open>None\<close>, an integer
  \<open>n\<close> (zero included) is \<open>Some n\<close>, and \<^verbatim>\<open>null\<close> is \<open>None\<close>.
\<close>

definition counter :: "(string \<times> json) list \<Rightarrow> string \<Rightarrow> int option" where
  "counter kvs k = (case map_of kvs k of Some (JInt n) \<Rightarrow> Some n | _ \<Rightarrow> None)"

subsection \<open>Sample backends, payloads and requests\<close>

text \<open>
  A library that converts nothing (every value of another type is a ValidationError) and
  prints an HTTPException as its detail.
\<close>

definition strict_library :: library where
  "strict_library =
     \<lparr>coerce_str = (\<lambda>v. None), coerce_int = (\<lambda>v. None), coerce_bool = (\<lambda>v. None),
      coerce_dict = (\<lambda>v. None),
      exc_str = (\<lambda>e. case e of HTTPException c d \<Rightarrow> d | _ \<Rightarrow> ''error'')\<rparr>"

text \<open>A 200 response carrying a JSON value (its text is not spelled out: the code reads the text of error responses only), and an error response with a plain-text body.\<close>

definition ok_response :: "json \<Rightarrow> http_response" where
  "ok_response j = \<lparr>status_code = 200, body_text = [], json_value = Some j\<rparr>"

definition error_response :: "int \<Rightarrow> string \<Rightarrow> http_response" where
  "error_response c t = \<lparr>status_code = c, body_text = t, json_value = None\<rparr>"

text \<open>A backend that gives the same answer to every call of an endpoint: version, tags, generate, show.\<close>

definition fixed_backend :: "outcome \<Rightarrow> outcome \<Rightarrow> outcome \<Rightarrow> outcome \<Rightarrow> backend" where
  "fixed_backend v t g s tr a =
     (case a of
        Get url secs \<Rightarrow> (if url = version_url then v else t)
      | Post url body secs \<Rightarrow> (if url = generate_url then g else s)
      | Sleep secs \<Rightarrow> Refused)"

text \<open>A backend that refuses every connection until \<open>n\<close> actions have gone by, and then behaves as \<open>be\<close>.\<close>

definition late_backend :: "nat \<Rightarrow> backend \<Rightarrow> backend" where
  "late_backend n be tr a = (if length tr < n then Refused else be tr a)"

definition sample_tags :: json where
  "sample_tags =
     JObject [(''models'',
       JArray [JObject [(''name'', JString ''gemma2:2b''), (''size'', JInt 1629518495)],
               JObject [(''name'', JString ''llama3:8b'')]])]"

definition other_tags :: json where
  "other_tags = JObject [(''models'', JArray [JObject [(''name'', JString ''llama3:8b'')]])]"

definition sample_generated :: "(string \<times> json) list" where
  "sample_generated =
     [(''response'', JString ''hello''), (''model'', JString ''x''),
      (''created_at'', JString ''t''), (''done'', JBool True), (''eval_count'', JInt 0)]"

definition sample_shown :: "(string \<times> json) list" where
  "sample_shown =
     [(''name'', JString ''top-level''), (''size'', JInt 42),
      (''details'', JObject [(''family'', JString ''gemma2'')])]"

definition sample_request :: InferenceRequest where
  "sample_request =
     \<lparr>prompt = ''hi'', max_tokens = Some 5, temperature = Some (7 / 10), top_p = Some (9 / 10),
      stream = Some False\<rparr>"

definition streaming_request :: InferenceRequest where
  "streaming_request =
     \<lparr>prompt = ''hi'', max_tokens = Some 5, temperature = Some (7 / 10), top_p = Some (9 / 10),
      stream = Some True\<rparr>"

text \<open>Everything works: the target model is listed and generation answers \<open>sample_generated\<close>.\<close>

definition healthy_backend :: backend where
  "healthy_backend =
     fixed_backend (Responded (ok_response (JObject []))) (Responded (ok_response sample_tags))
       (Responded (ok_response (JObject sample_generated)))
       (Responded (ok_response (JObject sample_shown)))"

text \<open>The backend is up but the target model is not installed: generate and show answer 404.\<close>

definition partial_backend :: backend where
  "partial_backend =
     fixed_backend (Responded (ok_response (JObject []))) (Responded (ok_response other_tags))
       (Responded (error_response 404 ''model not found''))
       (Responded (error_response 404 ''model not found''))"

text \<open>Nothing listens on the port.\<close>

definition dead_backend :: backend where
  "dead_backend = fixed_backend Refused Refused Refused Refused"

text \<open>The version call runs into its 5 second timeout while the other endpoints answer.\<close>

definition slow_version_backend :: backend where
  "slow_version_backend =
     fixed_backend TimedOut (Responded (ok_response sample_tags))
       (Responded (ok_response (JObject sample_generated)))
       (Responded (ok_response (JObject sample_shown)))"

text \<open>The backend is up and every other endpoint answers 500.\<close>

definition failing_backend :: backend where
  "failing_backend =
     fixed_backend (Responded (ok_response (JObject [])))
       (Responded (error_response 500 ''internal error''))
       (Responded (error_response 500 ''internal error''))
       (Responded (error_response 500 ''internal error''))"

text \<open>The backend is up and generation runs into the 60 second timeout.\<close>

definition slow_generate_backend :: backend where
  "slow_generate_backend =
     fixed_backend (Responded (ok_response (JObject []))) (Responded (ok_response sample_tags))
       TimedOut (Responded (ok_response (JObject sample_shown)))"

text \<open>The backend is up and answers generate and show with an empty JSON object.\<close>

definition bare_backend :: backend where
  "bare_backend =
     fixed_backend (Responded (ok_response (JObject []))) (Responded (ok_response sample_tags))
       (Responded (ok_response (JObject []))) (Responded (ok_response (JObject [])))"

section \<open>Facts about the helpers\<close>

lemma and_then_Inr: "and_then (Inr x) f = f x"
  by (simp add: and_then_def)

lemma and_then_Inl: "and_then (Inl e) f = Inl e"
  by (simp add: and_then_def)

lemma check_ollama_health_eq:
  "check_ollama_health be tr = (Inr (version_ok be tr), tr @ [Get version_url 5])"
  by (simp add: check_ollama_health_def check_ollama_health_try_def http_call_def version_ok_def
      split: outcome.split)

lemma get_available_models_total:
  "\<exists>names. get_available_models be tr = (Inr names, tr @ [Get tags_url 10])"
  by (simp add: get_available_models_def get_available_models_try_def http_call_def
      split: outcome.split sum.split option.split)

lemma ensure_model_loaded_total:
  "\<exists>b. ensure_model_loaded be tr = (Inr b, tr @ [Post generate_url warmup_payload 30])"
  by (auto simp: ensure_model_loaded_def ensure_model_loaded_try_def http_call_def
      split: outcome.split)

lemma model_names_objects:
  "list_all2 (\<lambda>e n. map_of e ''name'' = Some n) entries names \<Longrightarrow>
     model_names (map JObject entries) = Inr names"
  by (induction entries names rule: list_all2_induct) (simp_all add: py_getitem_def)

lemma get_available_models_non200:
  "be tr (Get tags_url 10) = Responded r \<Longrightarrow> status_code r \<noteq> 200 \<Longrightarrow>
     get_available_models be tr = (Inr [], tr @ [Get tags_url 10])"
  by (simp add: get_available_models_def get_available_models_try_def http_call_def)

lemma get_available_models_200:
  "be tr (Get tags_url 10) = Responded r \<Longrightarrow> status_code r = 200 \<Longrightarrow>
   json_value r = Some (JObject kvs) \<Longrightarrow> map_of kvs ''models'' = Some (JArray (map JObject entries)) \<Longrightarrow>
   list_all2 (\<lambda>e n. map_of e ''name'' = Some n) entries names \<Longrightarrow>
     get_available_models be tr = (Inr names, tr @ [Get tags_url 10])"
  by (simp add: get_available_models_def get_available_models_try_def http_call_def
      py_get_def py_iter_def model_names_objects)

lemma validate_str_list_strings: "validate_str_list lib (map JString names) = Inr names"
  by (induction names) (simp_all add: validate_str_def and_then_def)

lemma urls_distinct:
  "version_url \<noteq> tags_url" "generate_url \<noteq> show_url"
  by (simp_all add: version_url_def tags_url_def generate_url_def show_url_def)

lemma fixed_backend_simps:
  "fixed_backend v t g s tr (Get version_url n) = v"
  "fixed_backend v t g s tr (Get tags_url n) = t"
  "fixed_backend v t g s tr (Post generate_url b n) = g"
  "fixed_backend v t g s tr (Post show_url b n) = s"
  using urls_distinct by (simp_all add: fixed_backend_def)

section \<open>Listing the models\<close>

text \<open>
  C6. When the backend answers the list-models call with a status other than 200, the
  result is the empty list. In every case the result is a list and never an error. When
  the backend answers 200 with an object whose \<^verbatim>\<open>models\<close> array holds objects that each
  have a \<^verbatim>\<open>name\<close>, the result is exactly those names, in the order of the array.
\<close>

theorem get_available_models_spec:
  "(\<forall>r. be tr (Get tags_url 10) = Responded r \<and> status_code r \<noteq> 200 \<longrightarrow>
        get_available_models be tr = (Inr [], tr @ [Get tags_url 10])) \<and>
   (\<exists>names. get_available_models be tr = (Inr names, tr @ [Get tags_url 10])) \<and>
   (\<forall>r kvs entries names.
        be tr (Get tags_url 10) = Responded r \<and> status_code r = 200 \<and>
        json_value r = Some (JObject kvs) \<and>
        map_of kvs ''models'' = Some (JArray (map JObject entries)) \<and>
        list_all2 (\<lambda>e n. map_of e ''name'' = Some n) entries names \<longrightarrow>
        get_available_models be tr = (Inr names, tr @ [Get tags_url 10]))"
  using get_available_models_non200 [of be tr] get_available_models_total [of be tr]
    get_available_models_200 [of be tr]
  by blast

theorem get_available_models_spec_witness:
  "get_available_models failing_backend [] = (Inr [], [Get tags_url 10]) \<and>
   get_available_models healthy_backend [] =
     (Inr [JString ''gemma2:2b'', JString ''llama3:8b''], [Get tags_url 10])"
proof -
  have a: "failing_backend [] (Get tags_url 10) = Responded (error_response 500 ''internal error'')
      \<and> status_code (error_response 500 ''internal error'') \<noteq> 200"
    by (simp add: failing_backend_def fixed_backend_simps error_response_def)
  have b: "healthy_backend [] (Get tags_url 10) = Responded (ok_response sample_tags) \<and>
      status_code (ok_response sample_tags) = 200 \<and>
      json_value (ok_response sample_tags) = Some (JObject [(''models'',
       JArray (map JObject [[(''name'', JString ''gemma2:2b''), (''size'', JInt 1629518495)],
               [(''name'', JString ''llama3:8b'')]]))]) \<and>
      map_of [(''models'',
       JArray (map JObject [[(''name'', JString ''gemma2:2b''), (''size'', JInt 1629518495)],
               [(''name'', JString ''llama3:8b'')]]))] ''models'' = Some (JArray (map JObject [[(''name'', JString ''gemma2:2b''), (''size'', JInt 1629518495)],
               [(''name'', JString ''llama3:8b'')]])) \<and>
      list_all2 (\<lambda>e n. map_of e ''name'' = Some n) [[(''name'', JString ''gemma2:2b''), (''size'', JInt 1629518495)],
               [(''name'', JString ''llama3:8b'')]] [JString ''gemma2:2b'', JString ''llama3:8b'']"
    by (simp add: healthy_backend_def fixed_backend_simps ok_response_def sample_tags_def)
  from a get_available_models_spec [of failing_backend "[]"]
  have "get_available_models failing_backend [] = (Inr [], [] @ [Get tags_url 10])" by blast
  moreover from b get_available_models_spec [of healthy_backend "[]"]
  have "get_available_models healthy_backend [] =
     (Inr [JString ''gemma2:2b'', JString ''llama3:8b''], [] @ [Get tags_url 10])" by blast
  ultimately show ?thesis by simp
qed

section \<open>The health check\<close>

text \<open>
  C1 (amended). When the names that the list-models call returns are strings, the
  health check returns a state whose status is \<^verbatim>\<open>healthy\<close> exactly when the version check
  succeeds and the target model is among the names, \<^verbatim>\<open>partial\<close> exactly when the version
  check succeeds and the target model is not among them, and \<^verbatim>\<open>unhealthy\<close> exactly when
  the version check fails. In all three states \<open>available_models\<close> is the list that the
  list-models call returned: that call is made after the version check whatever its
  result was.
\<close>

theorem health_check_status:
  assumes "get_available_models be (tr @ [Get version_url 5]) = (Inr (map JString names), tr2)"
  shows "\<exists>h. health_check lib be tr = (Inr h, tr2) \<and>
           (status h = ''healthy'' \<longleftrightarrow> version_ok be tr \<and> MODEL_NAME \<in> set names) \<and>
           (status h = ''partial'' \<longleftrightarrow> version_ok be tr \<and> MODEL_NAME \<notin> set names) \<and>
           (status h = ''unhealthy'' \<longleftrightarrow> \<not> version_ok be tr) \<and>
           available_models h = names \<and>
           tr2 = tr @ [Get version_url 5, Get tags_url 10]"
proof -
  have mem: "JString MODEL_NAME \<in> JString ` set names \<longleftrightarrow> MODEL_NAME \<in> set names"
    by auto
  from assms get_available_models_total [of be "tr @ [Get version_url 5]"]
  have tr2: "tr2 = tr @ [Get version_url 5, Get tags_url 10]" by auto
  show ?thesis
    unfolding health_check_def check_ollama_health_eq
    by (simp add: assms mem HealthResponse_init_def validate_str_list_strings and_then_Inr tr2)
qed

theorem health_check_status_witness:
  "\<exists>h. health_check strict_library healthy_backend [] = (Inr h, [Get version_url 5, Get tags_url 10]) \<and>
       status h = ''healthy'' \<and> available_models h = [''gemma2:2b'', ''llama3:8b'']"
proof -
  have v: "version_ok healthy_backend []"
    by (simp add: version_ok_def healthy_backend_def fixed_backend_simps ok_response_def)
  have "get_available_models healthy_backend ([] @ [Get version_url 5]) =
      (Inr (map JString [''gemma2:2b'', ''llama3:8b'']), [Get version_url 5, Get tags_url 10])"
    by (simp add: get_available_models_def get_available_models_try_def http_call_def
        healthy_backend_def fixed_backend_simps ok_response_def sample_tags_def
        py_get_def py_iter_def py_getitem_def)
  from health_check_status [OF this, of strict_library] v
  show ?thesis by (auto simp: MODEL_NAME_def)
qed

text \<open>
  The version call times out and the tags call answers: the state is \<^verbatim>\<open>unhealthy\<close> and
  its list of models is not empty.
\<close>

theorem health_check_unhealthy_counterexample:
  "health_check strict_library slow_version_backend [] =
     (Inr \<lparr>status = ''unhealthy'', message = ''Ollama service is not responding'',
           ollama_status = ''not responding'',
           available_models = [''gemma2:2b'', ''llama3:8b'']\<rparr>,
      [Get version_url 5, Get tags_url 10])"
  by (simp add: health_check_def check_ollama_health_eq version_ok_def slow_version_backend_def
      fixed_backend_simps get_available_models_def get_available_models_try_def http_call_def
      ok_response_def sample_tags_def py_get_def py_iter_def py_getitem_def
      HealthResponse_init_def validate_str_def and_then_def MODEL_NAME_def)

section \<open>The inference endpoint\<close>

lemma py_get_str:
  "absent_or is_str kvs k \<Longrightarrow> py_get (JObject kvs) k (JString d) = Inr (JString (str_or kvs k d))"
  by (auto simp: absent_or_def is_str_def py_get_def str_or_def split: option.splits json.splits)

lemma py_get_bool:
  "absent_or is_bool kvs k \<Longrightarrow> py_get (JObject kvs) k (JBool d) = Inr (JBool (bool_or kvs k d))"
  by (auto simp: absent_or_def is_bool_def py_get_def bool_or_def split: option.splits json.splits)

lemma py_get_int:
  "absent_or is_int kvs k \<Longrightarrow> py_get (JObject kvs) k (JInt d) = Inr (JInt (int_or kvs k d))"
  by (auto simp: absent_or_def is_int_def py_get_def int_or_def split: option.splits json.splits)

lemma py_get_counter:
  "absent_or is_int_or_null kvs k \<Longrightarrow>
     py_get (JObject kvs) k JNull = Inr (optional JInt (counter kvs k))"
  by (auto simp: absent_or_def is_int_or_null_def py_get_def counter_def optional_def
      split: option.splits json.splits)

lemma validate_exact:
  "validate_str lib (JString s) = Inr s"
  "validate_bool lib (JBool b) = Inr b"
  "validate_int lib (JInt n) = Inr n"
  "validate_dict lib (JObject d) = Inr d"
  "validate_optional_int lib (optional JInt x) = Inr x"
  by (simp_all add: validate_str_def validate_bool_def validate_int_def validate_dict_def
      validate_optional_int_def optional_def split: option.split)

lemma generate_inference_try_trace:
  "snd (generate_inference_try lib be request tr) =
     tr @ [Post generate_url (inference_payload request) 60]"
  by (simp add: generate_inference_try_def http_call_def split: outcome.split)

lemma generate_inference_try_ok:
  assumes "be tr (Post generate_url (inference_payload request) 60) = Responded resp"
    and "status_code resp = 200"
    and "json_value resp = Some (JObject kvs)"
    and "generate_result_typed kvs"
  shows "generate_inference_try lib be request tr =
     (Inr \<lparr>response = str_or kvs ''response'' [],
           model = str_or kvs ''model'' MODEL_NAME,
           created_at = str_or kvs ''created_at'' [],
           done_field = bool_or kvs ''done'' True,
           total_duration = counter kvs ''total_duration'',
           load_duration = counter kvs ''load_duration'',
           prompt_eval_count = counter kvs ''prompt_eval_count'',
           prompt_eval_duration = counter kvs ''prompt_eval_duration'',
           eval_count = counter kvs ''eval_count'',
           eval_duration = counter kvs ''eval_duration''\<rparr>,
      tr @ [Post generate_url (inference_payload request) 60])"
  using assms
  by (simp add: generate_inference_try_def http_call_def generate_result_typed_def
      py_get_str py_get_bool py_get_counter and_then_def InferenceResponse_init_def validate_exact)

lemma generate_inference_ok:
  assumes "generate_answers be request tr resp"
    and "status_code resp = 200"
    and "json_value resp = Some (JObject kvs)"
    and "generate_result_typed kvs"
  shows "generate_inference lib be request tr =
     (Inr \<lparr>response = str_or kvs ''response'' [],
           model = str_or kvs ''model'' MODEL_NAME,
           created_at = str_or kvs ''created_at'' [],
           done_field = bool_or kvs ''done'' True,
           total_duration = counter kvs ''total_duration'',
           load_duration = counter kvs ''load_duration'',
           prompt_eval_count = counter kvs ''prompt_eval_count'',
           prompt_eval_duration = counter kvs ''prompt_eval_duration'',
           eval_count = counter kvs ''eval_count'',
           eval_duration = counter kvs ''eval_duration''\<rparr>,
      tr @ [Get version_url 5, Post generate_url (inference_payload request) 60])"
proof -
  from assms(1) have v: "version_ok be tr"
    and g: "be (tr @ [Get version_url 5]) (Post generate_url (inference_payload request) 60) = Responded resp"
    by (simp_all add: generate_answers_def)
  show ?thesis
    by (simp add: generate_inference_def check_ollama_health_eq v
        generate_inference_try_ok [where be = be and tr = "tr @ [Get version_url 5]", OF g assms(2) assms(3) assms(4)])
qed

lemma generate_inference_unreachable:
  "\<not> version_ok be tr \<Longrightarrow>
     generate_inference lib be request tr =
       (Inl (HTTPException 503 ''Ollama service is not available''), tr @ [Get version_url 5])"
  by (simp add: generate_inference_def check_ollama_health_eq)

lemma generate_inference_timeout:
  "version_ok be tr \<Longrightarrow>
   be (tr @ [Get version_url 5]) (Post generate_url (inference_payload request) 60) = TimedOut \<Longrightarrow>
     generate_inference lib be request tr =
       (Inl (HTTPException 504
          ''Request timed out. The model might be loading or the prompt is too complex.''),
        tr @ [Get version_url 5, Post generate_url (inference_payload request) 60])"
  by (simp add: generate_inference_def check_ollama_health_eq generate_inference_try_def
      http_call_def)

lemma generate_inference_non200:
  "version_ok be tr \<Longrightarrow>
   be (tr @ [Get version_url 5]) (Post generate_url (inference_payload request) 60) = Responded resp \<Longrightarrow>
   status_code resp \<noteq> 200 \<Longrightarrow>
     generate_inference lib be request tr =
       (Inl (HTTPException 500 (''Internal server error: '' @
          exc_str lib (HTTPException (status_code resp) (''Ollama request failed: '' @ body_text resp)))),
        tr @ [Get version_url 5, Post generate_url (inference_payload request) 60])"
  by (simp add: generate_inference_def check_ollama_health_eq generate_inference_try_def
      http_call_def)

lemma generate_inference_refused:
  "version_ok be tr \<Longrightarrow>
   be (tr @ [Get version_url 5]) (Post generate_url (inference_payload request) 60) = Refused \<Longrightarrow>
     generate_inference lib be request tr =
       (Inl (HTTPException 500 (''Internal server error: '' @ exc_str lib ConnectError)),
        tr @ [Get version_url 5, Post generate_url (inference_payload request) 60])"
  by (simp add: generate_inference_def check_ollama_health_eq generate_inference_try_def
      http_call_def)

lemma sample_versions:
  "version_ok healthy_backend tr" "version_ok partial_backend tr"
  "\<not> version_ok dead_backend tr" "version_ok slow_generate_backend tr"
  by (simp_all add: version_ok_def healthy_backend_def partial_backend_def dead_backend_def
      slow_generate_backend_def fixed_backend_simps ok_response_def)

text \<open>The 503 and the 504 on sample backends: nothing listens, and generation is too slow.\<close>

lemma generate_inference_samples:
  "generate_inference lib dead_backend sample_request [] =
     (Inl (HTTPException 503 ''Ollama service is not available''), [Get version_url 5])"
  "generate_inference lib slow_generate_backend sample_request [] =
     (Inl (HTTPException 504
        ''Request timed out. The model might be loading or the prompt is too complex.''),
      [Get version_url 5, Post generate_url (inference_payload sample_request) 60])"
proof -
  show "generate_inference lib dead_backend sample_request [] =
     (Inl (HTTPException 503 ''Ollama service is not available''), [Get version_url 5])"
    using generate_inference_unreachable [OF sample_versions(3), of lib sample_request "[]"]
    by simp
  have "slow_generate_backend ([] @ [Get version_url 5])
      (Post generate_url (inference_payload sample_request) 60) = TimedOut"
    by (simp add: slow_generate_backend_def fixed_backend_simps)
  from generate_inference_timeout [where lib = lib, OF sample_versions(4) this]
  show "generate_inference lib slow_generate_backend sample_request [] =
     (Inl (HTTPException 504
        ''Request timed out. The model might be loading or the prompt is too complex.''),
      [Get version_url 5, Post generate_url (inference_payload sample_request) 60])"
    by simp
qed

text \<open>
  C2 says that a backend answer with a status other than 200 reaches the client with
  that status. In \<^verbatim>\<open>generate_inference\<close> the HTTPException carrying the backend's status
  is raised inside the \<^verbatim>\<open>try\<close>, whose \<^verbatim>\<open>except Exception\<close> catches it and raises a 500:
  with the backend up and the generate call answered by 404, the result is a 500 whose
  detail quotes the lost exception. (\<^verbatim>\<open>get_model_info\<close> has \<^verbatim>\<open>except HTTPException: raise\<close>
  for this; \<^verbatim>\<open>generate_inference\<close> has not.)
\<close>

theorem generate_inference_backend_status_lost:
  "generate_inference lib partial_backend sample_request [] =
     (Inl (HTTPException 500 (''Internal server error: '' @
        exc_str lib (HTTPException 404 ''Ollama request failed: model not found''))),
      [Get version_url 5, Post generate_url (inference_payload sample_request) 60])"
proof -
  have "partial_backend ([] @ [Get version_url 5])
      (Post generate_url (inference_payload sample_request) 60) =
      Responded (error_response 404 ''model not found'')"
    by (simp add: partial_backend_def fixed_backend_simps)
  from generate_inference_non200 [where lib = lib, OF sample_versions(2) this]
  show ?thesis by (simp add: error_response_def)
qed

text \<open>
  The calls that \<^verbatim>\<open>generate_inference\<close> makes: the version check and, when it succeeds,
  one generate call with the payload of the request.
\<close>

lemma generate_inference_trace:
  "snd (generate_inference lib be request tr) =
     tr @ Get version_url 5 #
       (if version_ok be tr then [Post generate_url (inference_payload request) 60] else [])"
proof (cases "version_ok be tr")
  case False
  then show ?thesis by (simp add: generate_inference_unreachable)
next
  case True
  obtain r tr2 where t: "generate_inference_try lib be request (tr @ [Get version_url 5]) = (r, tr2)"
    by (cases "generate_inference_try lib be request (tr @ [Get version_url 5])")
  with generate_inference_try_trace [of lib be request "tr @ [Get version_url 5]"]
  have tr2: "tr2 = tr @ [Get version_url 5, Post generate_url (inference_payload request) 60]"
    by simp
  show ?thesis
    by (simp add: generate_inference_def check_ollama_health_eq True t tr2
        split: sum.split exn.split)
qed

text \<open>
  C3 (amended). For every request, the payload of the generate call has \<open>model\<close> equal
  to the configured model name, \<open>prompt\<close> equal to the request's prompt, \<open>stream\<close> equal
  to the request's own stream field (so false for a request that leaves it at its
  default or sets it to false, and true for a request with \<^verbatim>\<open>stream=true\<close>), and the
  options \<open>num_predict\<close>, \<open>temperature\<close> and \<open>top_p\<close> of the request.
\<close>

theorem generate_inference_payload:
  "snd (generate_inference lib be request tr) =
     tr @ Get version_url 5 #
       (if version_ok be tr then
          [Post generate_url
             (JObject [(''model'', JString MODEL_NAME),
                       (''prompt'', JString (prompt request)),
                       (''stream'', optional JBool (stream request)),
                       (''options'',
                        JObject [(''num_predict'', optional JInt (max_tokens request)),
                                 (''temperature'', optional JFloat (temperature request)),
                                 (''top_p'', optional JFloat (top_p request))])])
             60]
        else [])"
  by (simp add: generate_inference_trace inference_payload_def)

text \<open>A request with \<^verbatim>\<open>stream=true\<close>: the payload sent to the backend has \<^verbatim>\<open>stream\<close> true.\<close>

theorem generate_inference_stream_counterexample:
  "snd (generate_inference strict_library healthy_backend streaming_request []) =
     [Get version_url 5,
      Post generate_url
        (JObject [(''model'', JString ''gemma2:2b''), (''prompt'', JString ''hi''),
                  (''stream'', JBool True),
                  (''options'',
                   JObject [(''num_predict'', JInt 5), (''temperature'', JFloat (7 / 10)),
                            (''top_p'', JFloat (9 / 10))])])
        60]"
  by (simp add: generate_inference_trace sample_versions inference_payload_def
      streaming_request_def optional_def MODEL_NAME_def)

text \<open>
  C4. When the backend is reachable and answers the generate call with status 200 and a
  well-typed JSON object whose \<^verbatim>\<open>response\<close> is the string \<open>s\<close>, the inference returns a
  response whose \<open>response\<close> field is exactly \<open>s\<close>.
\<close>

theorem response_text_verbatim:
  assumes "generate_answers be request tr resp"
    and "status_code resp = 200"
    and "json_value resp = Some (JObject kvs)"
    and "generate_result_typed kvs"
    and "map_of kvs ''response'' = Some (JString s)"
  shows "\<exists>r. generate_inference lib be request tr =
            (Inr r, tr @ [Get version_url 5, Post generate_url (inference_payload request) 60]) \<and>
          response r = s"
  using generate_inference_ok [OF assms(1-4), of lib] assms(5) by (simp add: str_or_def)

lemma sample_generate_answers:
  "generate_answers healthy_backend request [] (ok_response (JObject sample_generated))"
proof -
  have "healthy_backend tr (Post generate_url b n) = Responded (ok_response (JObject sample_generated))"
    for tr b n
    by (simp add: healthy_backend_def fixed_backend_simps)
  then show ?thesis by (simp add: generate_answers_def sample_versions)
qed

lemma sample_generated_typed: "generate_result_typed sample_generated"
  by (simp add: generate_result_typed_def absent_or_def sample_generated_def is_str_def
      is_bool_def is_int_or_null_def)

theorem response_text_verbatim_witness:
  "\<exists>r. generate_inference strict_library healthy_backend sample_request [] =
          (Inr r, [Get version_url 5, Post generate_url (inference_payload sample_request) 60]) \<and>
        response r = ''hello''"
proof -
  have "map_of sample_generated ''response'' = Some (JString ''hello'')"
    by (simp add: sample_generated_def)
  from response_text_verbatim [where lib = strict_library and request = sample_request,
      OF sample_generate_answers _ _ sample_generated_typed this]
  show ?thesis by (simp add: ok_response_def)
qed

text \<open>
  C5. When the backend is reachable and answers the generate call with status 200 and a
  well-typed JSON object, then for each of the six timing and usage counters: if the key
  is missing from the object the field of the response is \<open>None\<close> (and not \<open>Some 0\<close>),
  and if the key holds the integer \<open>n\<close>, zero included, the field is \<open>Some n\<close>.
\<close>

theorem optional_counters_carried:
  assumes "generate_answers be request tr resp"
    and "status_code resp = 200"
    and "json_value resp = Some (JObject kvs)"
    and "generate_result_typed kvs"
  shows "\<exists>r. generate_inference lib be request tr =
            (Inr r, tr @ [Get version_url 5, Post generate_url (inference_payload request) 60]) \<and>
          list_all (\<lambda>(k, field).
              (map_of kvs k = None \<longrightarrow> field r = None) \<and>
              (\<forall>n. map_of kvs k = Some (JInt n) \<longrightarrow> field r = Some n))
            [(''total_duration'', total_duration), (''load_duration'', load_duration),
             (''prompt_eval_count'', prompt_eval_count),
             (''prompt_eval_duration'', prompt_eval_duration),
             (''eval_count'', eval_count), (''eval_duration'', eval_duration)]"
  using generate_inference_ok [OF assms, of lib] by (simp add: counter_def)

theorem optional_counters_carried_witness:
  "\<exists>r. generate_inference strict_library healthy_backend sample_request [] =
          (Inr r, [Get version_url 5, Post generate_url (inference_payload sample_request) 60]) \<and>
        total_duration r = None \<and> eval_count r = Some 0"
proof -
  from optional_counters_carried [where lib = strict_library and request = sample_request,
      OF sample_generate_answers _ _ sample_generated_typed]
  show ?thesis by (auto simp: ok_response_def sample_generated_def)
qed

text \<open>
  C9. When the backend is reachable and answers the generate call with status 200 and a
  well-typed JSON object, the inference returns a response (it does not fail), in which
  a missing \<^verbatim>\<open>response\<close> is the empty string, a missing \<^verbatim>\<open>model\<close> is the configured model
  name, a missing \<^verbatim>\<open>created_at\<close> is the empty string and a missing \<^verbatim>\<open>done\<close> is true.
\<close>

theorem missing_fields_default:
  assumes "generate_answers be request tr resp"
    and "status_code resp = 200"
    and "json_value resp = Some (JObject kvs)"
    and "generate_result_typed kvs"
  shows "\<exists>r. generate_inference lib be request tr =
            (Inr r, tr @ [Get version_url 5, Post generate_url (inference_payload request) 60]) \<and>
          (map_of kvs ''response'' = None \<longrightarrow> response r = []) \<and>
          (map_of kvs ''model'' = None \<longrightarrow> model r = MODEL_NAME) \<and>
          (map_of kvs ''created_at'' = None \<longrightarrow> created_at r = []) \<and>
          (map_of kvs ''done'' = None \<longrightarrow> done_field r = True)"
  using generate_inference_ok [OF assms, of lib] by (simp add: str_or_def bool_or_def)


theorem missing_fields_default_witness:
  "\<exists>r. generate_inference strict_library bare_backend sample_request [] =
          (Inr r, [Get version_url 5, Post generate_url (inference_payload sample_request) 60]) \<and>
        response r = [] \<and> model r = ''gemma2:2b'' \<and> created_at r = [] \<and> done_field r"
proof -
  have v: "version_ok bare_backend []"
    by (simp add: version_ok_def bare_backend_def fixed_backend_simps ok_response_def)
  have g: "bare_backend ([] @ [Get version_url 5])
      (Post generate_url (inference_payload sample_request) 60) = Responded (ok_response (JObject []))"
    by (simp add: bare_backend_def fixed_backend_simps)
  have a: "generate_answers bare_backend sample_request [] (ok_response (JObject []))"
    using v g by (simp add: generate_answers_def)
  have t: "generate_result_typed []"
    by (simp add: generate_result_typed_def absent_or_def)
  from missing_fields_default [where lib = strict_library, OF a _ _ t]
  show ?thesis by (auto simp: ok_response_def MODEL_NAME_def)
qed

section \<open>The model endpoint\<close>

lemma py_get_details:
  "show_result_typed kvs \<Longrightarrow>
     py_get (JObject kvs) ''details'' (JObject []) = Inr (JObject (dict_or kvs ''details'' []))"
  by (auto simp: show_result_typed_def py_get_def dict_or_def split: option.splits json.splits)

lemma details_name_typed:
  "show_result_typed kvs \<Longrightarrow> absent_or is_str (dict_or kvs ''details'' []) ''name''"
  by (auto simp: show_result_typed_def dict_or_def absent_or_def split: option.splits json.splits)

lemma get_model_info_ok:
  assumes "show_answers be model_name tr resp"
    and "status_code resp = 200"
    and "json_value resp = Some (JObject kvs)"
    and "show_result_typed kvs"
  shows "get_model_info lib be model_name tr =
     (Inr \<lparr>name = str_or (dict_or kvs ''details'' []) ''name'' model_name,
           size_field = int_or kvs ''size'' 0,
           digest = str_or kvs ''digest'' [],
           details = dict_or kvs ''details'' []\<rparr>,
      tr @ [Post show_url (JObject [(''name'', JString model_name)]) 10])"
proof -
  from assms(4) have s: "absent_or is_int kvs ''size''" and d: "absent_or is_str kvs ''digest''"
    by (simp_all add: show_result_typed_def)
  have "get_model_info_try lib be model_name tr =
     (Inr \<lparr>name = str_or (dict_or kvs ''details'' []) ''name'' model_name,
           size_field = int_or kvs ''size'' 0,
           digest = str_or kvs ''digest'' [],
           details = dict_or kvs ''details'' []\<rparr>,
      tr @ [Post show_url (JObject [(''name'', JString model_name)]) 10])"
    using assms(1-3)
    by (simp add: get_model_info_try_def http_call_def show_answers_def
        py_get_details [OF assms(4)] py_get_str [OF details_name_typed [OF assms(4)]]
        py_get_int [OF s] py_get_str [OF d] and_then_def ModelInfo_init_def validate_exact)
  then show ?thesis by (simp add: get_model_info_def)
qed

lemma get_model_info_404:
  "show_answers be model_name tr resp \<Longrightarrow> status_code resp = 404 \<Longrightarrow>
     get_model_info lib be model_name tr =
       (Inl (HTTPException 404 (''Model '' @ [CHR 0x27] @ model_name @ [CHR 0x27] @ '' not found'')),
        tr @ [Post show_url (JObject [(''name'', JString model_name)]) 10])"
  by (simp add: get_model_info_def get_model_info_try_def http_call_def show_answers_def)

lemma get_model_info_other:
  "show_answers be model_name tr resp \<Longrightarrow> status_code resp \<noteq> 404 \<Longrightarrow> status_code resp \<noteq> 200 \<Longrightarrow>
     get_model_info lib be model_name tr =
       (Inl (HTTPException (status_code resp) ''Failed to get model information''),
        tr @ [Post show_url (JObject [(''name'', JString model_name)]) 10])"
  by (simp add: get_model_info_def get_model_info_try_def http_call_def show_answers_def)

text \<open>
  C7. When the backend answers the show call with 404, the result is an HTTPException
  with status 404 and a not-found message; with any other status than 404 and 200 it is
  an HTTPException with the backend's status; with 200 and a well-typed JSON object it is
  a ModelInfo. The 404 result differs from every result of the second kind.
\<close>

theorem get_model_info_spec:
  "(\<forall>resp. show_answers be model_name tr resp \<and> status_code resp = 404 \<longrightarrow>
      get_model_info lib be model_name tr =
        (Inl (HTTPException 404 (''Model '' @ [CHR 0x27] @ model_name @ [CHR 0x27] @ '' not found'')),
         tr @ [Post show_url (JObject [(''name'', JString model_name)]) 10])) \<and>
   (\<forall>resp. show_answers be model_name tr resp \<and> status_code resp \<noteq> 404 \<and> status_code resp \<noteq> 200 \<longrightarrow>
      get_model_info lib be model_name tr =
        (Inl (HTTPException (status_code resp) ''Failed to get model information''),
         tr @ [Post show_url (JObject [(''name'', JString model_name)]) 10])) \<and>
   (\<forall>resp kvs. show_answers be model_name tr resp \<and> status_code resp = 200 \<and>
      json_value resp = Some (JObject kvs) \<and> show_result_typed kvs \<longrightarrow>
      (\<exists>info. get_model_info lib be model_name tr =
         (Inr info, tr @ [Post show_url (JObject [(''name'', JString model_name)]) 10]))) \<and>
   (\<forall>code. HTTPException 404 (''Model '' @ [CHR 0x27] @ model_name @ [CHR 0x27] @ '' not found'') \<noteq>
      HTTPException code ''Failed to get model information'')"
proof (intro conjI allI impI)
  fix resp
  assume "show_answers be model_name tr resp \<and> status_code resp = 404"
  then show "get_model_info lib be model_name tr =
        (Inl (HTTPException 404 (''Model '' @ [CHR 0x27] @ model_name @ [CHR 0x27] @ '' not found'')),
         tr @ [Post show_url (JObject [(''name'', JString model_name)]) 10])"
    using get_model_info_404 by blast
next
  fix resp
  assume "show_answers be model_name tr resp \<and> status_code resp \<noteq> 404 \<and> status_code resp \<noteq> 200"
  then show "get_model_info lib be model_name tr =
        (Inl (HTTPException (status_code resp) ''Failed to get model information''),
         tr @ [Post show_url (JObject [(''name'', JString model_name)]) 10])"
    using get_model_info_other by blast
next
  fix resp kvs
  assume "show_answers be model_name tr resp \<and> status_code resp = 200 \<and>
      json_value resp = Some (JObject kvs) \<and> show_result_typed kvs"
  then show "\<exists>info. get_model_info lib be model_name tr =
         (Inr info, tr @ [Post show_url (JObject [(''name'', JString model_name)]) 10])"
    using get_model_info_ok [of be model_name tr resp kvs lib] by blast
next
  fix code
  show "HTTPException 404 (''Model '' @ [CHR 0x27] @ model_name @ [CHR 0x27] @ '' not found'') \<noteq>
      HTTPException code ''Failed to get model information''"
    by simp
qed

lemma sample_show_answers:
  "show_answers healthy_backend m [] (ok_response (JObject sample_shown))"
  "show_answers partial_backend m [] (error_response 404 ''model not found'')"
  "show_answers failing_backend m [] (error_response 500 ''internal error'')"
  by (simp_all add: show_answers_def healthy_backend_def partial_backend_def failing_backend_def
      fixed_backend_simps)

lemma sample_shown_typed: "show_result_typed sample_shown"
  by (simp add: show_result_typed_def absent_or_def sample_shown_def is_int_def is_str_def)

theorem get_model_info_spec_witness:
  "get_model_info strict_library partial_backend ''nonexistent'' [] =
     (Inl (HTTPException 404 (''Model '' @ [CHR 0x27] @ ''nonexistent'' @ [CHR 0x27] @ '' not found'')),
      [Post show_url (JObject [(''name'', JString ''nonexistent'')]) 10]) \<and>
   get_model_info strict_library failing_backend ''nonexistent'' [] =
     (Inl (HTTPException 500 ''Failed to get model information''),
      [Post show_url (JObject [(''name'', JString ''nonexistent'')]) 10]) \<and>
   (\<exists>info. get_model_info strict_library healthy_backend ''gemma2:2b'' [] =
     (Inr info, [Post show_url (JObject [(''name'', JString ''gemma2:2b'')]) 10]))"
proof -
  have a: "show_answers partial_backend ''nonexistent'' [] (error_response 404 ''model not found'') \<and>
      status_code (error_response 404 ''model not found'') = 404"
    using sample_show_answers(2) [of "''nonexistent''"] by (simp add: error_response_def)
  have b: "show_answers failing_backend ''nonexistent'' [] (error_response 500 ''internal error'') \<and>
      status_code (error_response 500 ''internal error'') \<noteq> 404 \<and>
      status_code (error_response 500 ''internal error'') \<noteq> 200"
    using sample_show_answers(3) [of "''nonexistent''"] by (simp add: error_response_def)
  have c: "show_answers healthy_backend ''gemma2:2b'' [] (ok_response (JObject sample_shown)) \<and>
      status_code (ok_response (JObject sample_shown)) = 200 \<and>
      json_value (ok_response (JObject sample_shown)) = Some (JObject sample_shown) \<and>
      show_result_typed sample_shown"
    using sample_show_answers(1) [of "''gemma2:2b''"] sample_shown_typed
    by (simp add: ok_response_def)
  from a get_model_info_spec [of partial_backend "''nonexistent''" "[]" strict_library]
  have "get_model_info strict_library partial_backend ''nonexistent'' [] =
     (Inl (HTTPException 404 (''Model '' @ [CHR 0x27] @ ''nonexistent'' @ [CHR 0x27] @ '' not found'')),
      [] @ [Post show_url (JObject [(''name'', JString ''nonexistent'')]) 10])" by blast
  moreover from b get_model_info_spec [of failing_backend "''nonexistent''" "[]" strict_library]
  have "get_model_info strict_library failing_backend ''nonexistent'' [] =
     (Inl (HTTPException (status_code (error_response 500 ''internal error''))
        ''Failed to get model information''),
      [] @ [Post show_url (JObject [(''name'', JString ''nonexistent'')]) 10])" by blast
  moreover from c get_model_info_spec [of healthy_backend "''gemma2:2b''" "[]" strict_library]
  have "\<exists>info. get_model_info strict_library healthy_backend ''gemma2:2b'' [] =
     (Inr info, [] @ [Post show_url (JObject [(''name'', JString ''gemma2:2b'')]) 10])" by blast
  ultimately show ?thesis by (simp add: error_response_def)
qed

text \<open>
  C10. When the backend answers the show call with 200 and a well-typed JSON object, the
  name of the returned ModelInfo is the \<^verbatim>\<open>name\<close> inside the object's \<^verbatim>\<open>details\<close> (the
  top-level \<^verbatim>\<open>name\<close> is not read) and the requested model name when that is missing;
  \<open>size\<close> is 0, \<open>digest\<close> the empty string and \<open>details\<close> the empty object when the
  keys are missing.
\<close>

theorem get_model_info_fields:
  assumes "show_answers be model_name tr resp"
    and "status_code resp = 200"
    and "json_value resp = Some (JObject kvs)"
    and "show_result_typed kvs"
  shows "\<exists>info. get_model_info lib be model_name tr =
            (Inr info, tr @ [Post show_url (JObject [(''name'', JString model_name)]) 10]) \<and>
          name info = (case map_of kvs ''details'' of
                         Some (JObject d) \<Rightarrow>
                           (case map_of d ''name'' of Some (JString s) \<Rightarrow> s | _ \<Rightarrow> model_name)
                       | _ \<Rightarrow> model_name) \<and>
          size_field info = (case map_of kvs ''size'' of Some (JInt n) \<Rightarrow> n | _ \<Rightarrow> 0) \<and>
          digest info = (case map_of kvs ''digest'' of Some (JString s) \<Rightarrow> s | _ \<Rightarrow> []) \<and>
          details info = (case map_of kvs ''details'' of Some (JObject d) \<Rightarrow> d | _ \<Rightarrow> [])"
  using get_model_info_ok [OF assms, of lib] assms(4)
  by (auto simp: str_or_def int_or_def dict_or_def show_result_typed_def
      split: option.splits json.splits)

theorem get_model_info_fields_witness:
  "get_model_info strict_library healthy_backend ''gemma2:2b'' [] =
     (Inr \<lparr>name = ''gemma2:2b'', size_field = 42, digest = [],
           details = [(''family'', JString ''gemma2'')]\<rparr>,
      [Post show_url (JObject [(''name'', JString ''gemma2:2b'')]) 10])"
proof -
  from get_model_info_fields [where lib = strict_library,
      OF sample_show_answers(1) _ _ sample_shown_typed, of "''gemma2:2b''"]
  show ?thesis by (auto simp: ok_response_def sample_shown_def)
qed

section \<open>The startup event\<close>

lemma polls_Suc: "polls (Suc k) = Get version_url 5 # Sleep 2 # polls k"
  by (simp add: polls_def)

lemma polls_0: "polls 0 = []"
  by (simp add: polls_def)

lemma startup_wait_exhausted:
  "(\<And>h. \<not> version_ok be h) \<Longrightarrow> startup_wait be n tr = (Inr False, tr @ polls n)"
  by (induction n arbitrary: tr) (simp_all add: check_ollama_health_eq polls_Suc polls_0)

lemma startup_wait_found:
  "k < n \<Longrightarrow> (\<And>j. j < k \<Longrightarrow> \<not> version_ok be (tr @ polls j)) \<Longrightarrow> version_ok be (tr @ polls k) \<Longrightarrow>
     startup_wait be n tr = (Inr True, tr @ polls k @ [Get version_url 5])"
proof (induction n arbitrary: tr k)
  case 0
  then show ?case by simp
next
  case (Suc n)
  show ?case
  proof (cases k)
    case 0
    with Suc.prems(3) show ?thesis by (simp add: check_ollama_health_eq polls_0)
  next
    case (Suc k')
    with Suc.prems(2) [of 0] have no: "\<not> version_ok be tr" by (simp add: polls_0)
    have lt: "k' < n" using Suc.prems(1) \<open>k = Suc k'\<close> by simp
    have fails: "\<not> version_ok be ((tr @ [Get version_url 5, Sleep 2]) @ polls j)" if "j < k'" for j
    proof -
      from that have "Suc j < k" using \<open>k = Suc k'\<close> by simp
      from Suc.prems(2) [OF this] show ?thesis by (simp add: polls_Suc)
    qed
    have found: "version_ok be ((tr @ [Get version_url 5, Sleep 2]) @ polls k')"
      using Suc.prems(3) \<open>k = Suc k'\<close> by (simp add: polls_Suc)
    from Suc.IH [OF lt fails found] no show ?thesis
      by (simp add: check_ollama_health_eq polls_Suc \<open>k = Suc k'\<close>)
  qed
qed

lemma startup_wait_total: "\<exists>b tr'. startup_wait be n tr = (Inr b, tr')"
  by (induction n arbitrary: tr) (auto simp: check_ollama_health_eq split: bool.split)

text \<open>
  C8. If the version check never succeeds, the startup event makes exactly 30 version
  checks, each followed by a sleep of 2 seconds, makes no other call (no generate call
  in particular) and ends in the exhausted-retries branch. If the check first succeeds
  at round \<open>k < 30\<close>, there are \<open>k\<close> failed rounds, the successful check, and then no
  further version check or sleep: only the tags call and, when the model is listed, the
  warm-up generate call, whatever the list of models is. In every run the startup event
  returns normally.
\<close>

theorem startup_event_spec:
  "((\<forall>h. \<not> version_ok be h) \<longrightarrow> startup_event be tr = (Inr ExhaustedRetries, tr @ polls 30)) \<and>
   (\<forall>k<30. (\<forall>j<k. \<not> version_ok be (tr @ polls j)) \<and> version_ok be (tr @ polls k) \<longrightarrow>
      (\<exists>e. startup_event be tr =
              (Inr e, tr @ polls k @ Get version_url 5 # Get tags_url 10 #
                 (if e = ModelNotAvailable then [] else [Post generate_url warmup_payload 30])) \<and>
           e \<noteq> ExhaustedRetries)) \<and>
   (\<exists>e tr'. startup_event be tr = (Inr e, tr'))"
proof (intro conjI allI impI)
  assume "\<forall>h. \<not> version_ok be h"
  then show "startup_event be tr = (Inr ExhaustedRetries, tr @ polls 30)"
    by (simp add: startup_event_def max_retries_def startup_wait_exhausted)
next
  fix k :: nat
  assume k: "k < 30" and h: "(\<forall>j<k. \<not> version_ok be (tr @ polls j)) \<and> version_ok be (tr @ polls k)"
  have w: "startup_wait be max_retries tr = (Inr True, tr @ polls k @ [Get version_url 5])"
    using k h by (intro startup_wait_found) (simp_all add: max_retries_def)
  obtain names where n: "get_available_models be (tr @ polls k @ [Get version_url 5]) =
      (Inr names, tr @ polls k @ [Get version_url 5, Get tags_url 10])"
    using get_available_models_total [of be "tr @ polls k @ [Get version_url 5]"] by auto
  obtain b where b: "ensure_model_loaded be (tr @ polls k @ [Get version_url 5, Get tags_url 10]) =
      (Inr b, tr @ polls k @ [Get version_url 5, Get tags_url 10, Post generate_url warmup_payload 30])"
    using ensure_model_loaded_total [of be "tr @ polls k @ [Get version_url 5, Get tags_url 10]"]
    by auto
  show "\<exists>e. startup_event be tr =
              (Inr e, tr @ polls k @ Get version_url 5 # Get tags_url 10 #
                 (if e = ModelNotAvailable then [] else [Post generate_url warmup_payload 30])) \<and>
           e \<noteq> ExhaustedRetries"
  proof (cases "JString MODEL_NAME \<in> set names")
    case False
    then show ?thesis
      by (intro exI [of _ ModelNotAvailable]) (simp add: startup_event_def w n)
  next
    case True
    show ?thesis
    proof (cases b)
      case True
      with \<open>JString MODEL_NAME \<in> set names\<close> show ?thesis
        by (intro exI [of _ WarmedUp]) (simp add: startup_event_def w n b)
    next
      case False
      with \<open>JString MODEL_NAME \<in> set names\<close> show ?thesis
        by (intro exI [of _ WarmupFailed]) (simp add: startup_event_def w n b)
    qed
  qed
next
  obtain b tr1 where w: "startup_wait be max_retries tr = (Inr b, tr1)"
    using startup_wait_total by blast
  obtain names where n: "get_available_models be tr1 = (Inr names, tr1 @ [Get tags_url 10])"
    using get_available_models_total by blast
  obtain b2 where b2: "ensure_model_loaded be (tr1 @ [Get tags_url 10]) =
      (Inr b2, (tr1 @ [Get tags_url 10]) @ [Post generate_url warmup_payload 30])"
    using ensure_model_loaded_total by blast
  show "\<exists>e tr'. startup_event be tr = (Inr e, tr')"
    by (cases b; cases b2) (simp_all add: startup_event_def w n b2)
qed


lemma length_polls: "length (polls k) = 2 * k"
  by (induction k) (simp_all add: polls_0 polls_Suc)

lemma count_polls:
  "count_list (polls k) (Get version_url 5) = k" "count_list (polls k) (Sleep 2) = k"
  by (induction k) (simp_all add: polls_0 polls_Suc)

theorem startup_event_spec_witness:
  "startup_event dead_backend [] = (Inr ExhaustedRetries, polls 30) \<and>
   (\<exists>e. startup_event (late_backend 4 healthy_backend) [] =
          (Inr e, polls 2 @ Get version_url 5 # Get tags_url 10 #
             (if e = ModelNotAvailable then [] else [Post generate_url warmup_payload 30])) \<and>
        e \<noteq> ExhaustedRetries)"
proof -
  have dead: "\<forall>h. \<not> version_ok dead_backend h"
    by (simp add: version_ok_def dead_backend_def fixed_backend_simps)
  have late: "(\<forall>j<2. \<not> version_ok (late_backend 4 healthy_backend) ([] @ polls j)) \<and>
      version_ok (late_backend 4 healthy_backend) ([] @ polls 2)"
    by (simp add: version_ok_def late_backend_def length_polls healthy_backend_def
        fixed_backend_simps ok_response_def)
  have two: "(2::nat) < 30" by simp
  from startup_event_spec [of dead_backend "[]"] dead
  have "startup_event dead_backend [] = (Inr ExhaustedRetries, [] @ polls 30)" by blast
  moreover from startup_event_spec [of "late_backend 4 healthy_backend" "[]"] late two
  have "\<exists>e. startup_event (late_backend 4 healthy_backend) [] =
          (Inr e, [] @ polls 2 @ Get version_url 5 # Get tags_url 10 #
             (if e = ModelNotAvailable then [] else [Post generate_url warmup_payload 30])) \<and>
        e \<noteq> ExhaustedRetries" by blast
  ultimately show ?thesis by simp
qed

end
